theory Spec2Isabelle
  imports Main "HOL-Library.Multiset"
begin

section \<open>Python values: exceptions, strings, lists\<close>

text \<open>
  The service is one Python module, \<^verbatim>\<open>main.py\<close>. Strings are modelled as \<open>string\<close>
  (lists of 8-bit characters), so the model speaks about ASCII text; scores and the
  threshold are Python's unbounded integers (\<open>int\<close>).

  An exception is a value. The handlers build the detail of a 500 response as
  \<^verbatim>\<open>f"Internal Server Error: {str(e)}"\<close>; the model keeps the wrapped exception
  \<open>e\<close> itself (\<open>InternalServerError e\<close>) instead of rendering it.
  \<open>RequestValidationError\<close> is the framework's error for a request that lacks a
  required parameter; it is answered with status 422.
\<close>

datatype exn =
    AttributeError
  | ValueError
  | IndexError
  | OtherError string
  | RequestValidationError
  | HTTPException nat detail
and detail =
    Detail string
  | InternalServerError exn

text \<open>\<^verbatim>\<open>str.lower()\<close> on ASCII text: the letters A..Z move to a..z.\<close>

definition lower_char :: "char \<Rightarrow> char" where
  "lower_char c =
     (let n = (of_char c :: nat) in if 65 \<le> n \<and> n \<le> 90 then char_of (n + 32) else c)"

definition lower :: "string \<Rightarrow> string" where
  "lower s = map lower_char s"

text \<open>
  \<^verbatim>\<open>s.split(d)\<close> for a one-character separator: the pieces between the separators, empty
  pieces included; the empty string gives one empty piece.
\<close>

fun split_on :: "char \<Rightarrow> string \<Rightarrow> string list" where
  "split_on d [] = [[]]"
| "split_on d (c # cs) =
     (if c = d then [] # split_on d cs
      else (case split_on d cs of
              [] \<Rightarrow> [[c]]
            | t # ts \<Rightarrow> (c # t) # ts))"

text \<open>\<^verbatim>\<open>d.join(ts)\<close>, the inverse of splitting.\<close>

fun join_on :: "char \<Rightarrow> string list \<Rightarrow> string" where
  "join_on d [] = []"
| "join_on d [t] = t"
| "join_on d (t # ts) = t @ d # join_on d ts"

text \<open>\<^verbatim>\<open>xs.index(x)\<close>: the first position of \<open>x\<close>; Python raises ValueError when there is none.\<close>

fun index_of :: "'a list \<Rightarrow> 'a \<Rightarrow> nat option" where
  "index_of [] x = None"
| "index_of (y # ys) x = (if y = x then Some 0 else map_option Suc (index_of ys x))"

text \<open>
  \<^verbatim>\<open>sorted(xs, key=key, reverse=True)\<close>. Python first computes the key of every element,
  in order (a key that raises aborts the sort), then sorts by decreasing key; the sort
  is stable, also with \<^verbatim>\<open>reverse=True\<close>: elements with equal keys keep their order.
  \<open>sort_key\<close> is a stable insertion sort, applied to the negated key.
\<close>

fun decorate :: "('a \<Rightarrow> exn + int) \<Rightarrow> 'a list \<Rightarrow> exn + (int \<times> 'a) list" where
  "decorate key [] = Inr []"
| "decorate key (x # xs) =
     (case key x of
        Inl e \<Rightarrow> Inl e
      | Inr k \<Rightarrow> (case decorate key xs of
                   Inl e \<Rightarrow> Inl e
                 | Inr ds \<Rightarrow> Inr ((k, x) # ds)))"

definition sorted_reverse :: "('a \<Rightarrow> exn + int) \<Rightarrow> 'a list \<Rightarrow> exn + 'a list" where
  "sorted_reverse key xs =
     (case decorate key xs of
        Inl e \<Rightarrow> Inl e
      | Inr ds \<Rightarrow> Inr (map snd (sort_key (\<lambda>(k, x). - k) ds)))"

section \<open>The fuzzy-matching library\<close>

text \<open>
  \<^verbatim>\<open>process.extract(query, choices)\<close> belongs to the fuzzywuzzy library, not to this
  repository. Its scoring function is a parameter \<open>sc\<close> of the model (\<open>sc query choice\<close>
  is the score of one choice). What the library does around the scorer is fixed by its
  interface \<^verbatim>\<open>extract(query, choices, processor, scorer, limit=5)\<close>: every choice is
  scored, in order; choices scoring below the cutoff 0 are dropped; and the
  \<^verbatim>\<open>limit\<close> best pairs \<open>(choice, score)\<close> are returned by decreasing score
  (\<^verbatim>\<open>heapq.nlargest(limit, pairs, key=score)\<close>, which is
  \<^verbatim>\<open>sorted(pairs, key=score, reverse=True)[:limit]\<close>). The module calls it without a
  limit, so the limit is the default 5.
\<close>

type_synonym scorer = "string \<Rightarrow> string \<Rightarrow> int"

definition extract_without_order :: "scorer \<Rightarrow> string \<Rightarrow> string list \<Rightarrow> (string \<times> int) list" where
  "extract_without_order sc query choices =
     filter (\<lambda>(c, s). 0 \<le> s) (map (\<lambda>c. (c, sc query c)) choices)"

definition nlargest :: "nat \<Rightarrow> (string \<times> int) list \<Rightarrow> (string \<times> int) list" where
  "nlargest n pairs = take n (sort_key (\<lambda>(c, s). - s) pairs)"

definition process_extract :: "scorer \<Rightarrow> string \<Rightarrow> string list \<Rightarrow> (string \<times> int) list" where
  "process_extract sc query choices = nlargest 5 (extract_without_order sc query choices)"

section \<open>Startup: the API key and the language catalog\<close>

text \<open>
  \<^verbatim>\<open>api_key = os.getenv('API_KEY')\<close>
  \<^verbatim>\<open>languages = [x.lower() for x in os.getenv('LANGUAGES').split(",")]\<close>

  The environment is a map from names to values; \<^verbatim>\<open>os.getenv\<close> of an unset name is
  \<^verbatim>\<open>None\<close>, and \<^verbatim>\<open>None.split\<close> raises AttributeError while the module is loaded.
\<close>

record config =
  api_key :: "string option"
  languages :: "string list"

definition load_languages :: "string option \<Rightarrow> exn + string list" where
  "load_languages v =
     (case v of
        None \<Rightarrow> Inl AttributeError
      | Some s \<Rightarrow> Inr (map lower (split_on CHR '','' s)))"

definition startup :: "(string \<rightharpoonup> string) \<Rightarrow> exn + config" where
  "startup env =
     (let k = env ''API_KEY'' in
      case load_languages (env ''LANGUAGES'') of
        Inl e \<Rightarrow> Inl e
      | Inr ls \<Rightarrow> Inr \<lparr>api_key = k, languages = ls\<rparr>)"

text \<open>
  The module-level code runs once, when the process starts. When it raises, the module
  is not loaded and no handler exists to serve a request; otherwise every handler
  reads the configuration it left behind.
\<close>

definition serve :: "(string \<rightharpoonup> string) \<Rightarrow> (config \<Rightarrow> 'r) \<Rightarrow> 'r option" where
  "serve env handler =
     (case startup env of
        Inl e \<Rightarrow> None
      | Inr cfg \<Rightarrow> Some (handler cfg))"

section \<open>Authentication\<close>

text \<open>
  \<^verbatim>\<open>if not api_key_header == api_key: raise HTTPException(status_code=401, ...)\<close>
  \<^verbatim>\<open>return True\<close>

  The header value is \<^verbatim>\<open>None\<close> when the request has no Authorization header
  (\<^verbatim>\<open>APIKeyHeader(..., auto_error=False)\<close>).
\<close>

definition is_authenticated :: "config \<Rightarrow> string option \<Rightarrow> exn + bool" where
  "is_authenticated cfg api_key_header =
     (if \<not> (api_key_header = api_key cfg)
      then Inl (HTTPException 401 (Detail ''Incorrect Authentication credentials''))
      else Inr True)"

section \<open>The fuzzy resolver\<close>

text \<open>
  The key of the final sort, \<^verbatim>\<open>matches[filtered_matches.index(x)][1]\<close>: the position of
  \<open>x\<close> in the filtered list, read in the unfiltered list of pairs.
\<close>

definition match_key :: "(string \<times> int) list \<Rightarrow> string list \<Rightarrow> string \<Rightarrow> exn + int" where
  "match_key matches filtered_matches x =
     (case index_of filtered_matches x of
        None \<Rightarrow> Inl ValueError
      | Some i \<Rightarrow> if i < length matches then Inr (snd (matches ! i)) else Inl IndexError)"

text \<open>
  \<^verbatim>\<open>search_closest_items(search_word, items, threshold=75)\<close>; every exception of the body
  becomes an HTTPException with status 500.
\<close>

definition search_closest_items :: "scorer \<Rightarrow> string \<Rightarrow> string list \<Rightarrow> int \<Rightarrow> exn + string list" where
  "search_closest_items sc search_word items threshold =
     (let matches = process_extract sc search_word items;
          filtered_matches = map fst (filter (\<lambda>(match, score). threshold \<le> score) matches)
      in case sorted_reverse (match_key matches filtered_matches) filtered_matches of
           Inl e \<Rightarrow> Inl (HTTPException 500 (InternalServerError e))
         | Inr r \<Rightarrow> Inr r)"

section \<open>The routes\<close>

text \<open>
  A handler's outcome is the list of calls it made to its collaborators (the fuzzy
  resolver, the translation provider) and either the exception it raised or its
  response. The dependency \<^verbatim>\<open>Depends(is_authenticated)\<close> runs before the body.
\<close>

datatype call =
    ResolverCall string "string list"
  | TranslatorCall string string

datatype response =
    Languages "string list"
  | UserPromptResponse string

record user_prompt =
  prompt :: string
  destination_language :: string

type_synonym outcome = "call list \<times> (exn + response)"

text \<open>The \<^verbatim>\<open>except Exception\<close> clause shared by the handlers.\<close>

definition internal_error :: "exn \<Rightarrow> exn" where
  "internal_error e = HTTPException 500 (InternalServerError e)"

text \<open>
  \<^verbatim>\<open>if search:\<close> holds for a string that is present and not empty; \<^verbatim>\<open>None\<close> and the
  empty string both fall through to the \<^verbatim>\<open>return\<close> after the \<^verbatim>\<open>if\<close>.
\<close>

definition truthy :: "string \<Rightarrow> bool" where
  "truthy s = (s \<noteq> [])"

text \<open>
  The body of \<^verbatim>\<open>supported_languages\<close> (the \<^verbatim>\<open>try\<close> block with its
  \<^verbatim>\<open>except Exception\<close> clause), as Python runs it on a value of \<^verbatim>\<open>search\<close>.
\<close>

definition supported_languages_body :: "config \<Rightarrow> scorer \<Rightarrow> string option \<Rightarrow> outcome" where
  "supported_languages_body cfg sc search =
     (case search of
        None \<Rightarrow> ([], Inr (Languages (languages cfg)))
      | Some s \<Rightarrow>
          if truthy s
          then ([ResolverCall s (languages cfg)],
                case search_closest_items sc s (languages cfg) 75 of
                  Inl e \<Rightarrow> Inl (internal_error e)
                | Inr r \<Rightarrow> Inr (Languages r))
          else ([], Inr (Languages (languages cfg))))"

text \<open>
  The route GET /supported_languages. Its signature is
  \<^verbatim>\<open>search : Annotated[Union[str,None], "..."]\<close>, without a default value, and
  \<^verbatim>\<open>auth: bool = Depends(is_authenticated)\<close>. The framework runs the dependency first
  (its 401 ends the request); a parameter declared without a default is required, so
  a request that carries no \<^verbatim>\<open>search\<close> parameter is answered with the validation
  error (422) and the body does not run. \<open>search = None\<close> is the request without the
  parameter, \<open>search = Some s\<close> the request with \<^verbatim>\<open>?search=s\<close>.
\<close>

definition supported_languages :: "config \<Rightarrow> scorer \<Rightarrow> string option \<Rightarrow> string option \<Rightarrow> outcome" where
  "supported_languages cfg sc header search =
     (case is_authenticated cfg header of
        Inl e \<Rightarrow> ([], Inl e)
      | Inr auth \<Rightarrow>
          (case search of
             None \<Rightarrow> ([], Inl RequestValidationError)
           | Some s \<Rightarrow> supported_languages_body cfg sc (Some s)))"

definition all_supported_languages :: "config \<Rightarrow> string option \<Rightarrow> outcome" where
  "all_supported_languages cfg header =
     (case is_authenticated cfg header of
        Inl e \<Rightarrow> ([], Inl e)
      | Inr auth \<Rightarrow> ([], Inr (Languages (languages cfg))))"

text \<open>
  The translation provider is a parameter: \<open>translator text dest\<close> is the translated
  text, or the exception the provider raised. The handler passes an HTTPException on
  unchanged and turns any other exception into a 500.
\<close>

type_synonym translator = "string \<Rightarrow> string \<Rightarrow> exn + string"

definition reraise :: "exn \<Rightarrow> exn" where
  "reraise e = (case e of HTTPException c d \<Rightarrow> e | _ \<Rightarrow> internal_error e)"

definition translate :: "config \<Rightarrow> translator \<Rightarrow> string option \<Rightarrow> user_prompt \<Rightarrow> outcome" where
  "translate cfg tr header userprompt =
     (case is_authenticated cfg header of
        Inl e \<Rightarrow> ([], Inl e)
      | Inr auth \<Rightarrow>
          if lower (destination_language userprompt) \<notin> set (languages cfg)
          then ([], Inl (reraise (HTTPException 400
                  (Detail ''Invalid destination language. Please provide a valid destination language.''))))
          else ([TranslatorCall (prompt userprompt) (destination_language userprompt)],
                case tr (prompt userprompt) (destination_language userprompt) of
                  Inl e \<Rightarrow> Inl (reraise e)
                | Inr text \<Rightarrow> Inr (UserPromptResponse text)))"

section \<open>The catalog as the specification words it\<close>

text \<open>
  The specification describes the catalog as the sequence of trimmed, lowercased,
  non-empty tokens of the configuration string. \<open>spec_catalog\<close> follows these words,
  to be compared with \<open>load_languages\<close>, which follows the module.
  \<open>strip\<close> removes ASCII whitespace at both ends, as \<^verbatim>\<open>str.strip()\<close> does.
\<close>

definition is_space :: "char \<Rightarrow> bool" where
  "is_space c = (c \<in> set [CHR '' '', CHR 0x09, CHR 0x0A, CHR 0x0B, CHR 0x0C, CHR 0x0D])"

definition strip :: "string \<Rightarrow> string" where
  "strip s = rev (dropWhile is_space (rev (dropWhile is_space s)))"

definition spec_catalog :: "string \<Rightarrow> string list" where
  "spec_catalog s = filter (\<lambda>t. t \<noteq> []) (map (\<lambda>t. lower (strip t)) (split_on CHR '','' s))"

section \<open>Facts about the helpers\<close>

lemma index_of_member:
  "x \<in> set xs \<Longrightarrow> \<exists>i. index_of xs x = Some i \<and> i < length xs \<and> xs ! i = x"
  by (induction xs) auto

lemma decorate_total:
  "(\<And>x. x \<in> set xs \<Longrightarrow> key x = Inr (g x)) \<Longrightarrow> decorate key xs = Inr (map (\<lambda>x. (g x, x)) xs)"
  by (induction xs) auto

text \<open>In a list sorted by decreasing score, the pairs at or above a threshold are a prefix.\<close>

lemma filter_sorted_desc:
  "sorted (map (\<lambda>(c, s). - s) ms) \<Longrightarrow>
   filter (\<lambda>(c, s). (t::int) \<le> s) ms = takeWhile (\<lambda>(c, s). t \<le> s) ms"
proof (induction ms)
  case Nil
  then show ?case by simp
next
  case (Cons m ms)
  obtain c s where m: "m = (c, s)" by (cases m)
  show ?case
  proof (cases "t \<le> s")
    case True
    with Cons m show ?thesis by simp
  next
    case False
    from Cons.prems m have "\<forall>p \<in> set ms. snd p \<le> s" by (auto simp: case_prod_beta)
    with False have "filter (\<lambda>(c, s). t \<le> s) ms = []"
      by (auto simp: filter_empty_conv)
    with False m show ?thesis by simp
  qed
qed

subsection \<open>What the library call returns\<close>

lemma extract_scores:
  "(c, s) \<in> set (process_extract sc q items) \<Longrightarrow> s = sc q c \<and> c \<in> set items \<and> 0 \<le> s"
  by (auto simp: process_extract_def nlargest_def extract_without_order_def dest!: in_set_takeD)

lemma extract_sorted:
  "sorted (map (\<lambda>(c, s). - s) (process_extract sc q items))"
  unfolding process_extract_def nlargest_def
  by (simp add: take_map [symmetric] sorted_wrt_take)

lemma extract_length: "length (process_extract sc q items) \<le> 5"
  by (simp add: process_extract_def nlargest_def)

subsection \<open>The final sort changes nothing\<close>

text \<open>
  The pairs come back from the library by decreasing score, so the filtered names are a
  prefix of them: position \<open>i\<close> of the filtered list and position \<open>i\<close> of the pairs
  hold the same name, the key of a name is its own score, no key raises, and the
  stable sort by decreasing key returns the filtered list as it is.
\<close>

lemma search_closest_items_eq:
  "search_closest_items sc q items t =
     Inr (map fst (filter (\<lambda>(c, s). t \<le> s) (process_extract sc q items)))"
proof -
  define ms where "ms = process_extract sc q items"
  define fs where "fs = map fst (filter (\<lambda>(c, s). t \<le> s) ms)"
  have srt: "sorted (map (\<lambda>(c, s). - s) ms)"
    unfolding ms_def by (rule extract_sorted)
  have sc: "\<And>p. p \<in> set ms \<Longrightarrow> snd p = sc q (fst p)"
    unfolding ms_def using extract_scores [of _ _ sc q items] by (metis prod.collapse)
  have fs_tw: "fs = map fst (takeWhile (\<lambda>(c, s). t \<le> s) ms)"
    unfolding fs_def using filter_sorted_desc [OF srt] by simp
  have len: "length fs \<le> length ms"
    unfolding fs_tw by (simp add: length_takeWhile_le)
  have nth: "\<And>i. i < length fs \<Longrightarrow> fs ! i = fst (ms ! i)"
    unfolding fs_tw by (simp add: takeWhile_nth)
  have key: "match_key ms fs x = Inr (sc q x)" if "x \<in> set fs" for x
  proof -
    from index_of_member [OF that] obtain i
      where i: "index_of fs x = Some i" "i < length fs" "fs ! i = x" by blast
    from i len have lt: "i < length ms" by simp
    then have "ms ! i \<in> set ms" by simp
    from sc [OF this] nth [OF i(2)] i(3) have "snd (ms ! i) = sc q x" by simp
    with i(1) lt show ?thesis by (simp add: match_key_def)
  qed
  have dec: "decorate (match_key ms fs) fs = Inr (map (\<lambda>x. (sc q x, x)) fs)"
    by (rule decorate_total) (rule key)
  have "map (\<lambda>x. - sc q x) fs = map (\<lambda>(c, s). - s) (filter (\<lambda>(c, s). t \<le> s) ms)"
    unfolding fs_def using sc by (auto simp: case_prod_beta)
  also have "sorted \<dots>" using srt by (rule sorted_filter)
  finally have "sorted (map (\<lambda>(k, x). - k) (map (\<lambda>x. (sc q x, x)) fs))"
    by (simp add: comp_def)
  then have "sort_key (\<lambda>(k, x). - k) (map (\<lambda>x. (sc q x, x)) fs) = map (\<lambda>x. (sc q x, x)) fs"
    by (rule sort_key_id_if_sorted)
  with dec have "sorted_reverse (match_key ms fs) fs = Inr fs"
    by (simp add: sorted_reverse_def comp_def)
  then show ?thesis
    by (simp add: search_closest_items_def Let_def ms_def [symmetric] fs_def [symmetric])
qed

lemma extract_names_distinct:
  "distinct items \<Longrightarrow> distinct (map fst (process_extract sc q items))"
proof -
  assume d: "distinct items"
  let ?ps = "extract_without_order sc q items"
  have "map fst ?ps = filter (\<lambda>c. 0 \<le> sc q c) items"
    by (induction items) (auto simp: extract_without_order_def)
  with d have "distinct (map fst ?ps)" by simp
  moreover have "mset (map fst (sort_key (\<lambda>(c, s). - s) ?ps)) = mset (map fst ?ps)"
    by simp
  ultimately have "distinct (map fst (sort_key (\<lambda>(c, s). - s) ?ps))"
    by (metis mset_eq_imp_distinct_iff)
  then show ?thesis
    by (simp add: process_extract_def nlargest_def take_map [symmetric])
qed

subsection \<open>Splitting and joining\<close>

lemma split_on_not_Nil: "split_on d s \<noteq> []"
  by (induction s) (auto split: list.splits)

lemma split_on_no_separator: "t \<in> set (split_on d s) \<Longrightarrow> d \<notin> set t"
  by (induction s arbitrary: t) (auto split: if_splits list.splits)

lemma join_on_Cons: "ts \<noteq> [] \<Longrightarrow> join_on d (t # ts) = t @ d # join_on d ts"
  by (cases ts) simp_all

lemma join_on_split_on: "join_on d (split_on d s) = s"
proof (induction s)
  case Nil
  then show ?case by simp
next
  case (Cons c cs)
  obtain t ts where sp: "split_on d cs = t # ts"
    using split_on_not_Nil [of d cs] by (cases "split_on d cs") auto
  show ?case
  proof (cases "c = d")
    case True
    with Cons sp show ?thesis by (simp add: join_on_Cons)
  next
    case False
    with Cons sp show ?thesis by (cases ts) auto
  qed
qed

lemma split_on_append_token:
  "d \<notin> set t \<Longrightarrow> split_on d (t @ d # s) = t # split_on d s"
  by (induction t) auto

lemma split_on_token: "d \<notin> set t \<Longrightarrow> split_on d t = [t]"
  by (induction t) auto

lemma split_on_join_on:
  "ts \<noteq> [] \<Longrightarrow> \<forall>t \<in> set ts. d \<notin> set t \<Longrightarrow> split_on d (join_on d ts) = ts"
proof (induction ts rule: join_on.induct)
  case (1 d)
  then show ?case by simp
next
  case (2 d t)
  then show ?case by (simp add: split_on_token)
next
  case (3 d t v va)
  then show ?case by (simp add: split_on_append_token)
qed

subsection \<open>Order, threshold and completeness of the resolver's result\<close>

text \<open>
  The result is in order of non-increasing score, and every name in it is a candidate
  scoring at or above the threshold.
\<close>

lemma search_closest_items_sorted:
  "search_closest_items sc q items t = Inr r \<Longrightarrow> sorted (map (\<lambda>c. - sc q c) r)"
proof -
  assume "search_closest_items sc q items t = Inr r"
  then have r: "r = map fst (filter (\<lambda>(c, s). t \<le> s) (process_extract sc q items))"
    by (simp add: search_closest_items_eq)
  have "map (\<lambda>c. - sc q c) r =
        map (\<lambda>(c, s). - s) (filter (\<lambda>(c, s). t \<le> s) (process_extract sc q items))"
    unfolding r using extract_scores [of _ _ sc q items] by (auto simp: case_prod_beta)
  also have "sorted \<dots>" using extract_sorted by (rule sorted_filter)
  finally show ?thesis .
qed

lemma search_closest_items_above_threshold:
  "search_closest_items sc q items t = Inr r \<Longrightarrow> c \<in> set r \<Longrightarrow> t \<le> sc q c \<and> c \<in> set items"
  using extract_scores [of _ _ sc q items] by (auto simp: search_closest_items_eq)

text \<open>With at most five candidates the limit of the library call drops nothing.\<close>

lemma search_closest_items_complete_upto_five:
  assumes "length items \<le> 5" "c \<in> set items" "t \<le> sc q c" "0 \<le> sc q c"
  shows "\<exists>r. search_closest_items sc q items t = Inr r \<and> c \<in> set r"
proof -
  have "length (extract_without_order sc q items) \<le> 5"
    unfolding extract_without_order_def
    using assms(1) length_filter_le [of "\<lambda>(c, s). 0 \<le> s" "map (\<lambda>c. (c, sc q c)) items"]
    by (simp del: filter_map length_filter_le)
  then have "set (process_extract sc q items) = set (extract_without_order sc q items)"
    by (simp add: process_extract_def nlargest_def)
  with assms(2,4) have "(c, sc q c) \<in> set (process_extract sc q items)"
    by (auto simp: extract_without_order_def)
  with assms(3) have "c \<in> set (map fst (filter (\<lambda>(c, s). t \<le> s) (process_extract sc q items)))"
    by force
  then show ?thesis by (simp add: search_closest_items_eq)
qed

section \<open>The fuzzy resolver: size of the result\<close>

text \<open>
  Claim C9. For every query and every candidate list, the list returned by
  \<open>search_closest_items\<close> has at most 5 elements, however many candidates score at or
  above the threshold: the library call is made with its default limit of 5. The
  function returns a list on every input (it never takes its 500 branch).
\<close>

theorem search_closest_items_at_most_five:
  "\<exists>r. search_closest_items sc q items t = Inr r \<and> length r \<le> 5"
proof -
  have "length (filter (\<lambda>(c, s). t \<le> s) (process_extract sc q items)) \<le> 5"
    using length_filter_le [of "\<lambda>(c, s). t \<le> s" "process_extract sc q items"]
      extract_length [of sc q items] by linarith
  then show ?thesis by (simp add: search_closest_items_eq)
qed

section \<open>The fuzzy resolver: which candidates are returned\<close>

text \<open>
  Claim C1. For every query and candidate list, \<open>search_closest_items\<close> with threshold
  \<open>t\<close> returns every candidate whose score is at least \<open>t\<close>; none is omitted.

  The module does not do this when more than five candidates reach the threshold. For
  the query \<open>english\<close> and six catalog names that all score 95 against it, the call
  with threshold 75 returns the first five; \<open>english in\<close>, scoring 95, is missing.
\<close>

theorem search_closest_items_drops_sixth_match:
  "search_closest_items (\<lambda>q c. 95) ''english''
     [''english us'', ''english uk'', ''english au'', ''english ca'', ''english nz'', ''english in''] 75
   = Inr [''english us'', ''english uk'', ''english au'', ''english ca'', ''english nz'']"
  by code_simp

text \<open>
  Claim C2. For every query, every candidate list without duplicates and every
  threshold, the returned list holds only names drawn from the candidate list (nothing
  is fabricated) and holds no name twice. The names come in order of score, not in
  their order in the candidate list.
\<close>

theorem search_closest_items_subset_distinct:
  "distinct items \<Longrightarrow>
   \<exists>r. search_closest_items sc q items t = Inr r \<and> set r \<subseteq> set items \<and> distinct r"
proof -
  assume d: "distinct items"
  let ?r = "map fst (filter (\<lambda>(c, s). t \<le> s) (process_extract sc q items))"
  have "set ?r \<subseteq> set items"
    using extract_scores [of _ _ sc q items] by auto
  moreover have "distinct ?r"
    using extract_names_distinct [OF d, of sc q] by (rule distinct_map_filter)
  ultimately show ?thesis by (simp add: search_closest_items_eq)
qed

theorem search_closest_items_subset_distinct_witness:
  "distinct [''yoruba'', ''hausa'', ''igbo''] \<and>
   (\<exists>r. search_closest_items (\<lambda>q c. if c = ''yoruba'' then 91 else 29) ''yorba''
          [''yoruba'', ''hausa'', ''igbo''] 75 = Inr r
      \<and> set r \<subseteq> set [''yoruba'', ''hausa'', ''igbo''] \<and> distinct r)"
proof -
  have d: "distinct [''yoruba'', ''hausa'', ''igbo'']" by simp
  from search_closest_items_subset_distinct [OF d] d show ?thesis by blast
qed

text \<open>
  Claim C3. If two candidates \<open>a\<close> and \<open>b\<close> both score at least the threshold and
  \<open>a\<close> scores strictly more than \<open>b\<close>, then \<open>a\<close> comes before \<open>b\<close> in the result.

  The result is in order of non-increasing score (\<open>search_closest_items_sorted\<close>), but
  \<open>b\<close> need not be in it: with five names scoring 95 and \<open>englis\<close> scoring 92, all
  above the threshold 75, the result is the five names and \<open>englis\<close> comes nowhere.
\<close>

theorem search_closest_items_drops_lower_match:
  "search_closest_items (\<lambda>q c. if c = ''englis'' then 92 else 95) ''english''
     [''english us'', ''english uk'', ''english au'', ''english ca'', ''english nz'', ''englis''] 75
   = Inr [''english us'', ''english uk'', ''english au'', ''english ca'', ''english nz'']"
  by code_simp

text \<open>
  Claim C4. For every candidate list and every threshold \<open>t > 0\<close>, the empty query
  gives the empty list. The module has no special case for the empty query; the
  library scores every choice 0 against an empty query, which is the hypothesis on
  the scorer, and then no choice reaches a positive threshold.
\<close>

theorem search_closest_items_empty_query:
  "\<forall>c \<in> set items. sc [] c = 0 \<Longrightarrow> 0 < t \<Longrightarrow> search_closest_items sc [] items t = Inr []"
proof -
  assume z: "\<forall>c \<in> set items. sc [] c = 0" and t: "0 < t"
  have "filter (\<lambda>(c, s). t \<le> s) (process_extract sc [] items) = []"
    using extract_scores [of _ _ sc "[]" items] z t by (fastforce simp: filter_empty_conv)
  then show ?thesis by (simp add: search_closest_items_eq)
qed

theorem search_closest_items_empty_query_witness:
  "(0::int) < 75 \<and>
   search_closest_items (\<lambda>q c. if q = [] then 0 else 100) [] [''yoruba'', ''hausa''] 75 = Inr []"
  using search_closest_items_empty_query
    [of "[''yoruba'', ''hausa'']" "\<lambda>q c. if q = [] then 0 else 100" 75]
  by simp

section \<open>The language catalog\<close>

text \<open>
  Claim C5. The catalog is the sequence of the configuration string's tokens, each
  trimmed, lowercased and non-empty. The module lowercases the tokens and does nothing
  else: a token keeps its surrounding spaces, and an empty token stays in the catalog.
\<close>

theorem load_languages_not_spec_catalog:
  "load_languages (Some '' Yoruba,,Hausa'') \<noteq> Inr (spec_catalog '' Yoruba,,Hausa'')"
  by code_simp

text \<open>
  Claim C5, amended. For every configuration string, the catalog is the sequence of
  its comma-separated tokens, in order, each lowercased: the tokens are the one
  non-empty list of comma-free strings whose join with commas is the configuration
  string. Tokens are not trimmed and empty tokens are kept.
\<close>

theorem load_languages_tokens:
  "load_languages (Some s) = Inr cat \<longleftrightarrow>
     (\<exists>toks. toks \<noteq> [] \<and> (\<forall>t \<in> set toks. CHR '','' \<notin> set t) \<and>
        join_on CHR '','' toks = s \<and> cat = map lower toks)"
proof
  assume "load_languages (Some s) = Inr cat"
  then have "cat = map lower (split_on CHR '','' s)" by (auto simp: load_languages_def)
  then show "\<exists>toks. toks \<noteq> [] \<and> (\<forall>t \<in> set toks. CHR '','' \<notin> set t) \<and>
        join_on CHR '','' toks = s \<and> cat = map lower toks"
    using split_on_not_Nil split_on_no_separator join_on_split_on by blast
next
  assume "\<exists>toks. toks \<noteq> [] \<and> (\<forall>t \<in> set toks. CHR '','' \<notin> set t) \<and>
        join_on CHR '','' toks = s \<and> cat = map lower toks"
  then obtain toks where "toks \<noteq> []" "\<forall>t \<in> set toks. CHR '','' \<notin> set t"
    "join_on CHR '','' toks = s" "cat = map lower toks" by blast
  then show "load_languages (Some s) = Inr cat"
    using split_on_join_on [of toks "CHR '',''"] by (auto simp: load_languages_def)
qed

theorem load_languages_tokens_witness:
  "load_languages (Some '' Yoruba,,Hausa'') = Inr ['' yoruba'', '''', ''hausa'']"
proof -
  have "['' Yoruba'', '''', ''Hausa''] \<noteq> [] \<and>
        (\<forall>t \<in> set ['' Yoruba'', '''', ''Hausa'']. CHR '','' \<notin> set t) \<and>
        join_on CHR '','' ['' Yoruba'', '''', ''Hausa''] = '' Yoruba,,Hausa'' \<and>
        ['' yoruba'', '''', ''hausa''] = map lower ['' Yoruba'', '''', ''Hausa'']"
    by code_simp
  then have "\<exists>toks. toks \<noteq> [] \<and> (\<forall>t \<in> set toks. CHR '','' \<notin> set t) \<and>
        join_on CHR '','' toks = '' Yoruba,,Hausa'' \<and> ['' yoruba'', '''', ''hausa''] = map lower toks"
    by (rule exI)
  then show ?thesis
    by (rule load_languages_tokens [THEN iffD2])
qed

section \<open>Startup and authentication\<close>

text \<open>
  Claim C7. If either configuration value (the list of language names, the
  shared-secret token) is absent at process start, startup fails and the process
  serves no request. The module fails only for the list: with \<^verbatim>\<open>LANGUAGES\<close> set and
  \<^verbatim>\<open>API_KEY\<close> unset, startup succeeds and the key is \<^verbatim>\<open>None\<close>.
\<close>

theorem startup_without_api_key:
  "(Map.empty(''LANGUAGES'' \<mapsto> ''yoruba,hausa'')) ''API_KEY'' = None \<and>
   startup (Map.empty(''LANGUAGES'' \<mapsto> ''yoruba,hausa''))
     = Inr \<lparr>api_key = None, languages = [''yoruba'', ''hausa'']\<rparr>"
  by (simp add: startup_def load_languages_def lower_def lower_char_def)

text \<open>
  Claim C7, amended. Startup fails exactly when \<^verbatim>\<open>LANGUAGES\<close> is absent: the module
  raises AttributeError while it is loaded, and the process serves no request,
  whatever the handler. When startup succeeds the configured key is the value of
  \<^verbatim>\<open>API_KEY\<close>, \<^verbatim>\<open>None\<close> when that is absent.
\<close>

theorem startup_fails_iff_languages_absent:
  "(isl (startup env) \<longleftrightarrow> env ''LANGUAGES'' = None) \<and>
   (serve env handler = None \<longleftrightarrow> env ''LANGUAGES'' = None) \<and>
   (env ''LANGUAGES'' = None \<longrightarrow> startup env = Inl AttributeError) \<and>
   (\<forall>cfg. startup env = Inr cfg \<longrightarrow> api_key cfg = env ''API_KEY'')"
  by (auto simp: startup_def serve_def load_languages_def split: option.splits)

theorem startup_fails_iff_languages_absent_witness:
  "startup (Map.empty(''API_KEY'' \<mapsto> ''secret'')) = Inl AttributeError \<and>
   serve (Map.empty(''API_KEY'' \<mapsto> ''secret'')) (\<lambda>cfg. languages cfg) = None \<and>
   serve (Map.empty(''LANGUAGES'' \<mapsto> ''yoruba,hausa'')) (\<lambda>cfg. languages cfg) \<noteq> None"
  using startup_fails_iff_languages_absent [of "Map.empty(''API_KEY'' \<mapsto> ''secret'')" "\<lambda>cfg. languages cfg"]
    startup_fails_iff_languages_absent [of "Map.empty(''LANGUAGES'' \<mapsto> ''yoruba,hausa'')" "\<lambda>cfg. languages cfg"]
  by simp

text \<open>
  Claim C8. \<open>is_authenticated\<close> raises the 401 error exactly when the Authorization
  header value differs from the configured key, and returns \<^verbatim>\<open>True\<close> exactly when they
  are equal. In particular a configuration without a key accepts a request without
  the header: in a process started with \<^verbatim>\<open>API_KEY\<close> unset (and any \<^verbatim>\<open>LANGUAGES\<close>
  value \<open>s\<close>), the check of a header-less request returns \<^verbatim>\<open>True\<close>.
\<close>

theorem is_authenticated_iff:
  "(is_authenticated cfg header = Inl (HTTPException 401 (Detail ''Incorrect Authentication credentials'')))
     = (header \<noteq> api_key cfg) \<and>
   (is_authenticated cfg header = Inr True) = (header = api_key cfg) \<and>
   is_authenticated (cfg\<lparr>api_key := None\<rparr>) None = Inr True \<and>
   serve (env(''API_KEY'' := None, ''LANGUAGES'' \<mapsto> s)) (\<lambda>cfg. is_authenticated cfg None)
     = Some (Inr True)"
  by (simp add: is_authenticated_def serve_def startup_def load_languages_def)

section \<open>The routes: validation and the empty search\<close>

text \<open>
  Claim C6. An authenticated POST /translate request whose destination language,
  lowercased, is not in the catalog fails with the 400 error, and the translation
  provider is not called. The check is exact membership of the lowercased name: the
  request is rejected in this way exactly when the name is not a member, and the
  handler has no access to the fuzzy scorer.
\<close>

theorem translate_rejects_unknown_destination:
  "is_authenticated cfg header = Inr True \<Longrightarrow>
   (translate cfg tr header userprompt =
      ([], Inl (HTTPException 400
        (Detail ''Invalid destination language. Please provide a valid destination language.''))))
   = (lower (destination_language userprompt) \<notin> set (languages cfg))"
  by (simp add: translate_def reraise_def)

theorem translate_rejects_unknown_destination_witness:
  "is_authenticated \<lparr>api_key = Some ''secret'', languages = [''yoruba'', ''hausa'']\<rparr> (Some ''secret'') = Inr True \<and>
   lower ''French'' \<notin> set [''yoruba'', ''hausa''] \<and>
   translate \<lparr>api_key = Some ''secret'', languages = [''yoruba'', ''hausa'']\<rparr> (\<lambda>text dest. Inr text)
     (Some ''secret'') \<lparr>prompt = ''My name is Bard'', destination_language = ''French''\<rparr>
   = ([], Inl (HTTPException 400
        (Detail ''Invalid destination language. Please provide a valid destination language.'')))"
proof -
  have a: "is_authenticated \<lparr>api_key = Some ''secret'', languages = [''yoruba'', ''hausa'']\<rparr> (Some ''secret'') = Inr True"
    by (simp add: is_authenticated_def)
  have n: "lower ''French'' \<notin> set [''yoruba'', ''hausa'']"
    by code_simp
  from translate_rejects_unknown_destination [OF a, of "\<lambda>text dest. Inr text"
      "\<lparr>prompt = ''My name is Bard'', destination_language = ''French''\<rparr>"] a n
  show ?thesis by simp
qed

text \<open>
  An authenticated request with an empty search string gets the whole catalog, in load
  order, and the fuzzy resolver is not called.
\<close>

lemma supported_languages_empty_string:
  "is_authenticated cfg header = Inr True \<Longrightarrow>
   supported_languages cfg sc header (Some []) = ([], Inr (Languages (languages cfg)))"
  by (simp add: supported_languages_def supported_languages_body_def truthy_def)

text \<open>
  Claim C10. GET /supported_languages with an empty search string returns the whole
  catalog in load order, exactly as if no search parameter were supplied, and the
  fuzzy resolver is not called.

  The empty search string does return the catalog, without a call to the resolver.
  The request without the parameter does not: the body is written for it (its comment
  reads "If no search word, return all supported languages", and the parameter's type
  admits \<^verbatim>\<open>None\<close>), but the parameter has no default value, so the authenticated
  request without it is answered with the validation error.
\<close>

theorem supported_languages_without_search:
  "supported_languages \<lparr>api_key = Some ''secret'', languages = [''yoruba'', ''hausa'', ''igbo'']\<rparr>
     (\<lambda>q c. 100) (Some ''secret'') None
   = ([], Inl RequestValidationError) \<and>
   supported_languages \<lparr>api_key = Some ''secret'', languages = [''yoruba'', ''hausa'', ''igbo'']\<rparr>
     (\<lambda>q c. 100) (Some ''secret'') (Some [])
   = ([], Inr (Languages [''yoruba'', ''hausa'', ''igbo'']))"
  by (simp add: supported_languages_def supported_languages_body_def truthy_def is_authenticated_def)

end
